theory Spec2Isabelle
  imports
    Complex_Main
    "HOL-Library.Char_ord"
    "HOL-Library.List_Lexorder"
    "HOL-Library.Multiset"
    "HOL-Library.Sublist"
begin

section \<open>The EPA rating model of \<^verbatim>\<open>main.py\<close>\<close>

text \<open>
  The program keeps one rating (``EPA'') per team in the module-level dictionary
  \<^verbatim>\<open>epa_scores\<close>, seeds unknown teams from the module-level number
  \<^verbatim>\<open>DEFAULT_EPA\<close>, and updates the ratings match by match.

  Numbers. Scores arrive as JSON integers and ratings become Python floats after the
  first update. Both are embedded as \<^typ>\<open>real\<close>: sums, products and quotients of the
  source are read as exact, so the rounding of IEEE doubles is outside this model. The
  range of doubles is kept where Python turns leaving it into an exception, which is the
  power \<^verbatim>\<open>**\<close> of the win probability.
  Match numbers come from \<^verbatim>\<open>enumerate\<close> and are Python integers, embedded as
  \<^typ>\<open>int\<close>.

  Team identifiers are only hashed and compared, so they are a type parameter \<open>'k\<close>.
\<close>

subsection \<open>Module state\<close>

text \<open>
  The two globals that the core reads and writes (\<^verbatim>\<open>main.py\<close> lines 8 and 15).
  The dictionary is a partial map; a missing key is \<open>None\<close>.
\<close>

record 'k state =
  epa_scores :: "'k \<rightharpoonup> real"
  DEFAULT_EPA :: real

text \<open>The state right after the module is loaded: \<^verbatim>\<open>DEFAULT_EPA = 80\<close>, \<^verbatim>\<open>epa_scores = {}\<close>.\<close>

definition initial_state :: "'k state" where
  "initial_state = \<lparr>epa_scores = Map.empty, DEFAULT_EPA = 80\<rparr>"

text \<open>The expression \<^verbatim>\<open>epa_scores.get(team, DEFAULT_EPA)\<close>: a read that never writes.\<close>

definition get_epa :: "'k state \<Rightarrow> 'k \<Rightarrow> real" where
  "get_epa s team = (case epa_scores s team of None \<Rightarrow> DEFAULT_EPA s | Some r \<Rightarrow> r)"

text \<open>
  The exceptions that the arithmetic of the core raises: a division by zero in the rating
  update, and a float power whose result is beyond the largest double in the prediction.
\<close>

datatype error = ZeroDivisionError | OverflowError

subsection \<open>Match records\<close>

text \<open>
  A match is a JSON object. The keys that the source reads with \<^verbatim>\<open>.get(key, default)\<close>
  may be absent, so they are options (\<open>None\<close> is the absent key). The entries of
  \<^verbatim>\<open>teams\<close> are read with \<^verbatim>\<open>team["teamNumber"]\<close> and \<^verbatim>\<open>team["station"]\<close>; they are
  taken as present.
\<close>

record 'k team =
  teamNumber :: 'k
  station :: string

record 'k match =
  teams :: "'k team list option"
  scoreRedFinal :: "real option"
  scoreBlueFinal :: "real option"
  actualStartTime :: "string option"

text \<open>\<^verbatim>\<open>match.get("scoreRedFinal", 0)\<close> and its blue twin.\<close>

definition red_score_of :: "'k match \<Rightarrow> real" where
  "red_score_of m = (case scoreRedFinal m of None \<Rightarrow> 0 | Some v \<Rightarrow> v)"

definition blue_score_of :: "'k match \<Rightarrow> real" where
  "blue_score_of m = (case scoreBlueFinal m of None \<Rightarrow> 0 | Some v \<Rightarrow> v)"

text \<open>\<^verbatim>\<open>match.get("teams", [])\<close>.\<close>

definition teams_of :: "'k match \<Rightarrow> 'k team list" where
  "teams_of m = (case teams m of None \<Rightarrow> [] | Some ts \<Rightarrow> ts)"

text \<open>The sort key \<^verbatim>\<open>lambda m: m.get("actualStartTime", "")\<close>.\<close>

definition start_key :: "'k match \<Rightarrow> string" where
  "start_key m = (case actualStartTime m of None \<Rightarrow> [] | Some t \<Rightarrow> t)"

subsection \<open>Parameter schedule\<close>

definition calculate_k_factor :: "int \<Rightarrow> real" where
  "calculate_k_factor match_number =
     (if match_number \<le> 6 then 0.5
      else if match_number \<le> 12 then 0.5 - (1 / 30) * real_of_int (match_number - 6)
      else 0.3)"

definition calculate_margin_parameter :: "int \<Rightarrow> real" where
  "calculate_margin_parameter match_number =
     (if match_number \<le> 12 then 0
      else if match_number \<le> 36 then real_of_int (match_number - 12) / 24
      else 1)"

subsection \<open>Baseline estimator\<close>

text \<open>
  The loop of \<^verbatim>\<open>calculate_default_epa\<close> carries the two accumulators
  \<^verbatim>\<open>total_scores\<close> and \<^verbatim>\<open>total_teams\<close>; the second one is an integer that grows by 4
  for each match.
\<close>

fun default_epa_loop :: "'k match list \<Rightarrow> real \<Rightarrow> int \<Rightarrow> real \<times> int" where
  "default_epa_loop [] total_scores total_teams = (total_scores, total_teams)"
| "default_epa_loop (m # ms) total_scores total_teams =
     default_epa_loop ms (total_scores + (red_score_of m + blue_score_of m)) (total_teams + 4)"

definition calculate_default_epa :: "'k match list \<Rightarrow> real" where
  "calculate_default_epa matches =
     (case default_epa_loop matches 0 0 of
        (total_scores, total_teams) \<Rightarrow>
          if total_teams > 0 then total_scores / real_of_int total_teams else 60)"

subsection \<open>Rating update\<close>

text \<open>
  One \<^verbatim>\<open>for team in ...\<close> loop of \<^verbatim>\<open>update_epa\<close>. The arguments \<open>own_score\<close>,
  \<open>own_total\<close>, \<open>opp_score\<close>, \<open>opp_total\<close> are the score and the summed rating of the
  alliance being written and of the other one; \<open>n\<close> is \<^verbatim>\<open>len\<close> of the list the loop
  runs over (at least 1 inside the loop). The quotient \<^verbatim>\<open>k_factor / (1 + margin)\<close> raises
  when \<^verbatim>\<open>margin\<close> is \<open>-1\<close>; the loop then stops with the state as it is at that
  moment.
\<close>

fun update_loop ::
  "'k list \<Rightarrow> real \<Rightarrow> real \<Rightarrow> real \<Rightarrow> real \<Rightarrow> real \<Rightarrow> real \<Rightarrow> nat \<Rightarrow> 'k state
     \<Rightarrow> error option \<times> 'k state" where
  "update_loop [] own_score own_total opp_score opp_total k_factor margin n s = (None, s)"
| "update_loop (team # rest) own_score own_total opp_score opp_total k_factor margin n s =
     (let old_epa = get_epa s team;
          surprise_factor = (own_score - own_total) - margin * (opp_score - opp_total)
      in if 1 + margin = 0 then (Some ZeroDivisionError, s)
         else update_loop rest own_score own_total opp_score opp_total k_factor margin n
                (s\<lparr>epa_scores := (epa_scores s)
                     (team \<mapsto> old_epa + (k_factor / (1 + margin)) * surprise_factor / real n)\<rparr>))"

text \<open>
  \<^verbatim>\<open>update_epa\<close>: both totals are summed first, then the red loop runs, then the blue
  one. The result is the exception raised, if any, and the module state the call leaves.
\<close>

definition update_epa ::
  "'k list \<Rightarrow> 'k list \<Rightarrow> real \<Rightarrow> real \<Rightarrow> real \<Rightarrow> real \<Rightarrow> 'k state \<Rightarrow> error option \<times> 'k state" where
  "update_epa red_team_ids blue_team_ids red_actual_score blue_actual_score k_factor margin s =
     (let red_total_epa = sum_list (map (get_epa s) red_team_ids);
          blue_total_epa = sum_list (map (get_epa s) blue_team_ids)
      in case update_loop red_team_ids red_actual_score red_total_epa
                blue_actual_score blue_total_epa k_factor margin (length red_team_ids) s of
           (Some e, s1) \<Rightarrow> (Some e, s1)
         | (None, s1) \<Rightarrow>
             update_loop blue_team_ids blue_actual_score blue_total_epa
               red_actual_score red_total_epa k_factor margin (length blue_team_ids) s1)"

subsection \<open>Match processing\<close>

definition process_match :: "'k match \<Rightarrow> int \<Rightarrow> 'k state \<Rightarrow> error option \<times> 'k state" where
  "process_match m match_number s =
     (let k_factor = calculate_k_factor match_number;
          margin = calculate_margin_parameter match_number;
          red_team_ids = map teamNumber (filter (\<lambda>t. prefix ''Red'' (station t)) (teams_of m));
          blue_team_ids = map teamNumber (filter (\<lambda>t. prefix ''Blue'' (station t)) (teams_of m));
          red_actual_score = red_score_of m;
          blue_actual_score = blue_score_of m
      in update_epa red_team_ids blue_team_ids red_actual_score blue_actual_score k_factor margin s)"

text \<open>
  The inner loop of \<^verbatim>\<open>main\<close> over \<^verbatim>\<open>enumerate(..., start=1)\<close>: an exception ends
  the loop.
\<close>

fun process_matches :: "(nat \<times> 'k match) list \<Rightarrow> 'k state \<Rightarrow> error option \<times> 'k state" where
  "process_matches [] s = (None, s)"
| "process_matches ((match_number, m) # rest) s =
     (case process_match m (int match_number) s of
        (Some e, s') \<Rightarrow> (Some e, s')
      | (None, s') \<Rightarrow> process_matches rest s')"

text \<open>
  The body of the event loop of \<^verbatim>\<open>main\<close> (lines 180 to 187) for one fetched list of
  matches: rebind \<^verbatim>\<open>DEFAULT_EPA\<close>, sort by start time (Python's \<^verbatim>\<open>sorted\<close> is stable,
  as \<^const>\<open>sort_key\<close> is), number from 1 and process in that order.
\<close>

definition process_event :: "'k match list \<Rightarrow> 'k state \<Rightarrow> error option \<times> 'k state" where
  "process_event matches s =
     process_matches (enumerate 1 (sort_key start_key matches))
       (s\<lparr>DEFAULT_EPA := calculate_default_epa matches\<rparr>)"

subsection \<open>Prediction\<close>







subsection \<open>Example matches\<close>

text \<open>
  Concrete match records used to evaluate the functions above: two matches with the same
  start time, one match half an hour later, one match without final scores, and one match
  with a very large blue score.
\<close>

definition tie_match_A :: "nat match" where
  "tie_match_A =
     \<lparr>teams = Some [\<lparr>teamNumber = 1, station = ''Red1''\<rparr>, \<lparr>teamNumber = 2, station = ''Red2''\<rparr>,
                    \<lparr>teamNumber = 3, station = ''Blue1''\<rparr>, \<lparr>teamNumber = 4, station = ''Blue2''\<rparr>],
      scoreRedFinal = Some 100, scoreBlueFinal = Some 50,
      actualStartTime = Some ''2024-11-02T10:00:00''\<rparr>"

definition tie_match_B :: "nat match" where
  "tie_match_B =
     \<lparr>teams = Some [\<lparr>teamNumber = 1, station = ''Red1''\<rparr>, \<lparr>teamNumber = 3, station = ''Red2''\<rparr>,
                    \<lparr>teamNumber = 2, station = ''Blue1''\<rparr>, \<lparr>teamNumber = 4, station = ''Blue2''\<rparr>],
      scoreRedFinal = Some 80, scoreBlueFinal = Some 20,
      actualStartTime = Some ''2024-11-02T10:00:00''\<rparr>"

definition later_match_C :: "nat match" where
  "later_match_C =
     \<lparr>teams = Some [\<lparr>teamNumber = 1, station = ''Red1''\<rparr>, \<lparr>teamNumber = 3, station = ''Red2''\<rparr>,
                    \<lparr>teamNumber = 2, station = ''Blue1''\<rparr>, \<lparr>teamNumber = 4, station = ''Blue2''\<rparr>],
      scoreRedFinal = Some 80, scoreBlueFinal = Some 20,
      actualStartTime = Some ''2024-11-02T10:30:00''\<rparr>"



section \<open>Properties of the rating update\<close>

subsection \<open>What each loop computes\<close>

text \<open>
  With \<open>margin = -1\<close> the first iteration raises before it writes; otherwise a loop adds the
  same increment to a team once for each of its occurrences in the list.
\<close>

lemma update_loop_raises:
  "1 + margin = 0 \<Longrightarrow>
   update_loop ts os ot ps pt k margin n s = (if ts = [] then (None, s) else (Some ZeroDivisionError, s))"
  by (cases ts) (simp_all add: Let_def)

lemma update_loop_fst:
  "1 + margin \<noteq> 0 \<Longrightarrow> fst (update_loop ts os ot ps pt k margin n s) = None"
  by (induction ts arbitrary: s) (simp_all add: Let_def)

lemma update_loop_default:
  "DEFAULT_EPA (snd (update_loop ts os ot ps pt k margin n s)) = DEFAULT_EPA s"
  by (induction ts arbitrary: s) (simp_all add: Let_def)

lemma get_epa_upd:
  "get_epa (s\<lparr>epa_scores := (epa_scores s)(t \<mapsto> v)\<rparr>) u = (if u = t then v else get_epa s u)"
  by (simp add: get_epa_def split: option.splits)

lemma update_loop_scores:
  assumes "1 + margin \<noteq> 0"
  shows "epa_scores (snd (update_loop ts os ot ps pt k margin n s)) u =
     (if u \<in> set ts
      then Some (get_epa s u + real (count_list ts u) *
                   ((k / (1 + margin)) * ((os - ot) - margin * (ps - pt)) / real n))
      else epa_scores s u)"
proof -
  define d where "d = (k / (1 + margin)) * ((os - ot) - margin * (ps - pt)) / real n"
  have "epa_scores (snd (update_loop ts os ot ps pt k margin n s)) u =
     (if u \<in> set ts then Some (get_epa s u + real (count_list ts u) * d) else epa_scores s u)"
  proof (induction ts arbitrary: s)
    case Nil
    then show ?case by simp
  next
    case (Cons t ts)
    have step: "update_loop (t # ts) os ot ps pt k margin n s =
        update_loop ts os ot ps pt k margin n
          (s\<lparr>epa_scores := (epa_scores s)(t \<mapsto> get_epa s t + d)\<rparr>)"
      using assms by (simp add: Let_def d_def)
    show ?case
      unfolding step Cons.IH
      by (simp add: get_epa_upd algebra_simps)
  qed
  then show ?thesis by (simp add: d_def)
qed


lemma update_loop_get:
  assumes "1 + margin \<noteq> 0"
  shows "get_epa (snd (update_loop ts os ot ps pt k margin n s)) u =
     get_epa s u + real (count_list ts u) *
       ((k / (1 + margin)) * ((os - ot) - margin * (ps - pt)) / real n)"
proof (cases "u \<in> set ts")
  case True
  then show ?thesis
    by (simp add: get_epa_def [of "snd _"] update_loop_scores [OF assms])
next
  case False
  then have "count_list ts u = 0" by (simp add: count_list_0_iff)
  with False show ?thesis
    by (simp add: get_epa_def update_loop_scores [OF assms] update_loop_default
          split: option.splits)
qed

lemma update_epa_raises:
  assumes "1 + margin = 0"
  shows "update_epa red blue rs bs k margin s =
     (if red = [] \<and> blue = [] then (None, s) else (Some ZeroDivisionError, s))"
  using assms by (simp add: update_epa_def Let_def update_loop_raises)

lemma update_epa_fst:
  assumes "1 + margin \<noteq> 0"
  shows "fst (update_epa red blue rs bs k margin s) = None"
proof -
  obtain e s1 where r: "update_loop red rs (sum_list (map (get_epa s) red)) bs
      (sum_list (map (get_epa s) blue)) k margin (length red) s = (e, s1)"
    by (cases "update_loop red rs (sum_list (map (get_epa s) red)) bs
      (sum_list (map (get_epa s) blue)) k margin (length red) s")
  have "e = None" using update_loop_fst [OF assms, of red] r by (metis fst_conv)
  then show ?thesis
    using r by (simp add: update_epa_def Let_def update_loop_fst [OF assms])
qed

lemma update_epa_snd:
  assumes "1 + margin \<noteq> 0"
  shows "snd (update_epa red blue rs bs k margin s) =
     snd (update_loop blue bs (sum_list (map (get_epa s) blue)) rs
            (sum_list (map (get_epa s) red)) k margin (length blue)
            (snd (update_loop red rs (sum_list (map (get_epa s) red)) bs
                    (sum_list (map (get_epa s) blue)) k margin (length red) s)))"
proof -
  obtain e s1 where r: "update_loop red rs (sum_list (map (get_epa s) red)) bs
      (sum_list (map (get_epa s) blue)) k margin (length red) s = (e, s1)"
    by (cases "update_loop red rs (sum_list (map (get_epa s) red)) bs
      (sum_list (map (get_epa s) blue)) k margin (length red) s")
  have "e = None" using update_loop_fst [OF assms, of red] r by (metis fst_conv)
  then show ?thesis
    using r by (simp add: update_epa_def Let_def)
qed


lemma update_epa_scores:
  assumes "1 + margin \<noteq> 0"
  shows "epa_scores (snd (update_epa red blue rs bs k margin s)) u =
     (if u \<in> set red \<union> set blue
      then Some (get_epa s u
             + real (count_list red u) *
                 ((k / (1 + margin)) *
                    ((rs - sum_list (map (get_epa s) red))
                       - margin * (bs - sum_list (map (get_epa s) blue))) / real (length red))
             + real (count_list blue u) *
                 ((k / (1 + margin)) *
                    ((bs - sum_list (map (get_epa s) blue))
                       - margin * (rs - sum_list (map (get_epa s) red))) / real (length blue)))
      else epa_scores s u)"
proof -
  have zr: "u \<notin> set red \<Longrightarrow> count_list red u = 0"
    and zb: "u \<notin> set blue \<Longrightarrow> count_list blue u = 0"
    by (simp_all add: count_list_0_iff)
  show ?thesis
    unfolding update_epa_snd [OF assms] update_loop_scores [OF assms] update_loop_get [OF assms]
    using zr zb by (auto simp: update_loop_scores [OF assms])
qed



subsection \<open>Claims about one call of the update\<close>

text \<open>
  C1. Red teams 1 and 2, blue teams 3 and 4, scores 100 and 50, \<open>k = 0.5\<close>, \<open>m = 0\<close>, and
  every one of the four teams holding rating 80 (read from the store or seeded): the call
  returns normally and leaves 65 for teams 1 and 2 and 52.5 for teams 3 and 4.
\<close>

theorem update_epa_example:
  fixes s :: "nat state"
  assumes "get_epa s 1 = 80" and "get_epa s 2 = 80" and "get_epa s 3 = 80" and "get_epa s 4 = 80"
  shows "fst (update_epa [1, 2] [3, 4] 100 50 0.5 0 s) = None
    \<and> epa_scores (snd (update_epa [1, 2] [3, 4] 100 50 0.5 0 s)) 1 = Some 65
    \<and> epa_scores (snd (update_epa [1, 2] [3, 4] 100 50 0.5 0 s)) 2 = Some 65
    \<and> epa_scores (snd (update_epa [1, 2] [3, 4] 100 50 0.5 0 s)) 3 = Some 52.5
    \<and> epa_scores (snd (update_epa [1, 2] [3, 4] 100 50 0.5 0 s)) 4 = Some 52.5"
proof -
  have nz: "1 + (0::real) \<noteq> 0" by simp
  show ?thesis
    using assms by (simp add: update_epa_fst [OF nz] update_epa_scores [OF nz])
qed

theorem update_epa_example_witness:
  "get_epa (initial_state :: nat state) 1 = 80 \<and> get_epa (initial_state :: nat state) 2 = 80
   \<and> get_epa (initial_state :: nat state) 3 = 80 \<and> get_epa (initial_state :: nat state) 4 = 80
   \<and> epa_scores (snd (update_epa [1, 2] [3, 4] 100 50 0.5 0 (initial_state :: nat state))) 1 = Some 65
   \<and> epa_scores (snd (update_epa [1, 2] [3, 4] 100 50 0.5 0 (initial_state :: nat state))) 3 = Some 52.5"
  using update_epa_example [of initial_state]
  by (simp add: get_epa_def initial_state_def)

text \<open>
  C2. On non-empty, disjoint alliances every rating written by one call is computed from the
  state before the call: the old rating of the team and both alliance totals are those of
  the incoming state \<open>s\<close>, never of a state in which a teammate was already written. (A
  team listed several times in its alliance receives the same increment once per
  occurrence.) With \<open>margin = -1\<close> the call raises and writes nothing.
\<close>

theorem update_epa_snapshot:
  assumes "red \<noteq> []" and "blue \<noteq> []" and "set red \<inter> set blue = {}"
  shows "(1 + margin \<noteq> 0 \<longrightarrow>
        fst (update_epa red blue rs bs k margin s) = None
      \<and> (\<forall>t \<in> set red.
            epa_scores (snd (update_epa red blue rs bs k margin s)) t =
              Some (get_epa s t + real (count_list red t) *
                ((k / (1 + margin)) *
                   ((rs - sum_list (map (get_epa s) red))
                      - margin * (bs - sum_list (map (get_epa s) blue))) / real (length red))))
      \<and> (\<forall>t \<in> set blue.
            epa_scores (snd (update_epa red blue rs bs k margin s)) t =
              Some (get_epa s t + real (count_list blue t) *
                ((k / (1 + margin)) *
                   ((bs - sum_list (map (get_epa s) blue))
                      - margin * (rs - sum_list (map (get_epa s) red))) / real (length blue)))))
    \<and> (1 + margin = 0 \<longrightarrow>
        update_epa red blue rs bs k margin s = (Some ZeroDivisionError, s))"
proof -
  have zr: "t \<in> set blue \<Longrightarrow> count_list red t = 0" for t
    using assms(3) by (auto simp: count_list_0_iff)
  have zb: "t \<in> set red \<Longrightarrow> count_list blue t = 0" for t
    using assms(3) by (auto simp: count_list_0_iff)
  show ?thesis
    using assms(1,2)
    by (auto simp: update_epa_fst update_epa_scores update_epa_raises zr zb)
qed

theorem update_epa_snapshot_witness:
  "[1, 2] \<noteq> ([] :: nat list) \<and> [3, 4] \<noteq> ([] :: nat list) \<and> set [1, 2] \<inter> set [3, 4 :: nat] = {}
   \<and> 1 + (1 / 2 :: real) \<noteq> 0 \<and> (1 :: nat) \<in> set [1, 2] \<and> (4 :: nat) \<in> set [3, 4]
   \<and> epa_scores (snd (update_epa [1, 2] [3, 4] 100 50 0.3 (1 / 2) (initial_state :: nat state))) 1
        = Some 79.5
   \<and> epa_scores (snd (update_epa [1, 2] [3, 4] 100 50 0.3 (1 / 2) (initial_state :: nat state))) 4
        = Some 72
   \<and> update_epa [1, 2] [3, 4] 100 50 0.3 (- 1) (initial_state :: nat state)
        = (Some ZeroDivisionError, initial_state)"
  using update_epa_snapshot [where red = "[1, 2 :: nat]" and blue = "[3, 4]" and margin = "1 / 2"
      and rs = 100 and bs = 50 and k = "0.3" and s = initial_state]
    update_epa_snapshot [where red = "[1, 2 :: nat]" and blue = "[3, 4]" and margin = "- 1"
      and rs = 100 and bs = 50 and k = "0.3" and s = initial_state]
  by (simp add: get_epa_def initial_state_def)

text \<open>
  C7. A team that is in neither alliance of the match keeps its entry of the store, an absent
  entry included, through any call of the update (also one that raises).
\<close>

theorem update_epa_frame:
  assumes "t \<notin> set red \<union> set blue"
  shows "epa_scores (snd (update_epa red blue rs bs k margin s)) t = epa_scores s t"
proof (cases "1 + margin = 0")
  case True
  then show ?thesis by (simp add: update_epa_raises)
next
  case False
  then show ?thesis using assms by (simp add: update_epa_scores)
qed

theorem update_epa_frame_witness:
  "(5 :: nat) \<notin> set [1, 2] \<union> set [3, 4] \<and> (6 :: nat) \<notin> set [1, 2] \<union> set [3, 4]
   \<and> epa_scores (snd (update_epa [1, 2] [3, 4] 100 50 0.5 0
        \<lparr>epa_scores = [5 \<mapsto> 70], DEFAULT_EPA = 80\<rparr>)) (5 :: nat) = Some 70
   \<and> epa_scores (snd (update_epa [1, 2] [3, 4] 100 50 0.5 0
        \<lparr>epa_scores = [5 \<mapsto> 70], DEFAULT_EPA = 80\<rparr>)) (6 :: nat) = None"
  using update_epa_frame [where t = "5 :: nat" and red = "[1, 2]" and blue = "[3, 4]" and rs = 100
      and bs = 50 and k = "0.5" and margin = 0
      and s = "\<lparr>epa_scores = [5 \<mapsto> 70], DEFAULT_EPA = 80\<rparr>"]
    update_epa_frame [where t = "6 :: nat" and red = "[1, 2]" and blue = "[3, 4]" and rs = 100
      and bs = 50 and k = "0.5" and margin = 0
      and s = "\<lparr>epa_scores = [5 \<mapsto> 70], DEFAULT_EPA = 80\<rparr>"]
  by simp

section \<open>Properties of the parameter schedule and the baseline\<close>

text \<open>
  C4. The K-factor of match number \<open>n\<close> is 0.5 up to match 6, \<open>0.5 - (n - 6) / 30\<close> for
  matches 7 to 12, and 0.3 after match 12; hence it lies between 0.3 and 0.5 for every
  \<open>n \<ge> 1\<close>.
\<close>

theorem calculate_k_factor_schedule:
  "(n \<le> 6 \<longrightarrow> calculate_k_factor n = 0.5)
   \<and> (7 \<le> n \<and> n \<le> 12 \<longrightarrow> calculate_k_factor n = 0.5 - real_of_int (n - 6) / 30)
   \<and> (n > 12 \<longrightarrow> calculate_k_factor n = 0.3)
   \<and> (n \<ge> 1 \<longrightarrow> 0.3 \<le> calculate_k_factor n \<and> calculate_k_factor n \<le> 0.5)"
  by (auto simp: calculate_k_factor_def)

theorem calculate_k_factor_schedule_witness:
  "(3 :: int) \<le> 6 \<and> calculate_k_factor 3 = 0.5
   \<and> (7 :: int) \<le> 9 \<and> (9 :: int) \<le> 12 \<and> calculate_k_factor 9 = 0.4
   \<and> (20 :: int) > 12 \<and> calculate_k_factor 20 = 0.3
   \<and> (12 :: int) \<ge> 1 \<and> 0.3 \<le> calculate_k_factor 12 \<and> calculate_k_factor 12 \<le> 0.5"
  using calculate_k_factor_schedule [of 3] calculate_k_factor_schedule [of 9]
    calculate_k_factor_schedule [of 20] calculate_k_factor_schedule [of 12]
  by simp

text \<open>
  C5. The margin parameter of match number \<open>n\<close> is 0 up to match 12, \<open>(n - 12) / 24\<close> for
  matches 13 to 36, and 1 after match 36; it does not decrease from one match number to a
  later one within 13 to 36; it is 0 at match 12 and 1 at match 36.
\<close>

theorem calculate_margin_parameter_schedule:
  "(n \<le> 12 \<longrightarrow> calculate_margin_parameter n = 0)
   \<and> (13 \<le> n \<and> n \<le> 36 \<longrightarrow> calculate_margin_parameter n = real_of_int (n - 12) / 24)
   \<and> (n > 36 \<longrightarrow> calculate_margin_parameter n = 1)
   \<and> (13 \<le> n \<and> n \<le> n' \<and> n' \<le> 36 \<longrightarrow>
         calculate_margin_parameter n \<le> calculate_margin_parameter n')
   \<and> calculate_margin_parameter 12 = 0
   \<and> calculate_margin_parameter 36 = 1"
  by (auto simp: calculate_margin_parameter_def)

theorem calculate_margin_parameter_schedule_witness:
  "(5 :: int) \<le> 12 \<and> calculate_margin_parameter 5 = 0
   \<and> (13 :: int) \<le> 18 \<and> (18 :: int) \<le> 36 \<and> calculate_margin_parameter 18 = 1 / 4
   \<and> (40 :: int) > 36 \<and> calculate_margin_parameter 40 = 1
   \<and> (18 :: int) \<le> 30 \<and> (30 :: int) \<le> 36
   \<and> calculate_margin_parameter 18 \<le> calculate_margin_parameter 30"
  using calculate_margin_parameter_schedule [of 5 5]
    calculate_margin_parameter_schedule [of 18 30]
    calculate_margin_parameter_schedule [of 40 40]
  by simp

text \<open>The accumulators after the loop: the summed scores and four slots per match.\<close>

lemma default_epa_loop_eq:
  "default_epa_loop ms a c =
     (a + (\<Sum>m\<leftarrow>ms. red_score_of m + blue_score_of m), c + 4 * int (length ms))"
  by (induction ms arbitrary: a c) (simp_all add: algebra_simps)

text \<open>
  C6. For a non-empty list of matches the baseline is the sum of both final scores of all
  matches divided by four times the number of matches; the teams of a match play no part in
  it. For the empty list it is 60, and for a single match with scores 100 and 80 it is 45.
\<close>

theorem calculate_default_epa_average:
  fixes ms :: "'k match list" and ts :: "'k team list option"
  shows "(ms \<noteq> [] \<longrightarrow>
      calculate_default_epa ms =
        (\<Sum>m\<leftarrow>ms. red_score_of m + blue_score_of m) / (4 * real (length ms)))
   \<and> calculate_default_epa ([] :: 'k match list) = 60
   \<and> calculate_default_epa
        [\<lparr>teams = ts, scoreRedFinal = Some 100, scoreBlueFinal = Some 80,
          actualStartTime = t\<rparr>] = 45"
  by (cases ms) (simp_all add: calculate_default_epa_def default_epa_loop_eq
       red_score_of_def blue_score_of_def)

theorem calculate_default_epa_average_witness:
  "[\<lparr>teams = Some [\<lparr>teamNumber = 1 :: nat, station = ''Red1''\<rparr>],
      scoreRedFinal = Some 30, scoreBlueFinal = Some 10, actualStartTime = None\<rparr>,
    \<lparr>teams = None, scoreRedFinal = Some 20, scoreBlueFinal = None,
      actualStartTime = Some ''2024-11-02T10:00:00''\<rparr>] \<noteq> []
   \<and> calculate_default_epa
       [\<lparr>teams = Some [\<lparr>teamNumber = 1 :: nat, station = ''Red1''\<rparr>],
          scoreRedFinal = Some 30, scoreBlueFinal = Some 10, actualStartTime = None\<rparr>,
        \<lparr>teams = None, scoreRedFinal = Some 20, scoreBlueFinal = None,
          actualStartTime = Some ''2024-11-02T10:00:00''\<rparr>] = 7.5"
  using calculate_default_epa_average [where ms =
     "[\<lparr>teams = Some [\<lparr>teamNumber = 1 :: nat, station = ''Red1''\<rparr>],
          scoreRedFinal = Some 30, scoreBlueFinal = Some 10, actualStartTime = None\<rparr>,
        \<lparr>teams = None, scoreRedFinal = Some 20, scoreBlueFinal = None,
          actualStartTime = Some ''2024-11-02T10:00:00''\<rparr>]"
     and ts = None and t = None]
  by (simp add: red_score_of_def blue_score_of_def)

section \<open>Properties of the prediction\<close>

text \<open>Unfolding everything that one event evaluates, for the concrete runs below.\<close>

lemmas eval_defs =
  process_event_def initial_state_def start_key_def calculate_default_epa_def
  red_score_of_def blue_score_of_def process_match_def teams_of_def calculate_k_factor_def
  calculate_margin_parameter_def update_epa_def get_epa_def Let_def









section \<open>Properties of match and event processing\<close>





text \<open>
  The stable sort yields the same sequence for two lists of the same matches that agree, for
  every start time, on the order of the matches with that start time; and the baseline
  depends on the matches only as a multiset.
\<close>

lemma sort_key_same_ties:
  fixes f :: "'a \<Rightarrow> 'b :: linorder"
  assumes "mset ys = mset xs"
    and "\<And>k. filter (\<lambda>x. f x = k) ys = filter (\<lambda>x. f x = k) xs"
  shows "sort_key f ys = sort_key f xs"
proof (rule properties_for_sort_key)
  show "mset (sort_key f xs) = mset ys" using assms(1) by simp
  show "sorted (map f (sort_key f xs))" by simp
  show "filter (\<lambda>x. f k = f x) (sort_key f xs) = filter (\<lambda>x. f k = f x) ys" for k
  proof -
    have "filter (\<lambda>x. f x = f k) (sort_key f xs) = filter (\<lambda>x. f x = f k) ys"
      by (simp add: sort_key_stable assms(2))
    then show ?thesis by (simp add: eq_commute [of "f k"])
  qed
qed

lemma calculate_default_epa_mset:
  assumes "mset ys = mset xs"
  shows "calculate_default_epa ys = calculate_default_epa xs"
proof -
  let ?g = "\<lambda>m. red_score_of m + blue_score_of m"
  have "sum_mset (image_mset ?g (mset ys)) = sum_mset (image_mset ?g (mset xs))"
    using assms by simp
  then have "sum_list (map ?g ys) = sum_list (map ?g xs)"
    by (simp only: sum_mset_sum_list [symmetric] mset_map)
  moreover have "length ys = length xs"
    using assms by (rule mset_eq_length)
  ultimately show ?thesis
    by (simp add: calculate_default_epa_def default_epa_loop_eq)
qed

text \<open>
  C8, as amended. Two input orderings of the matches of one event that list the matches of
  every start time in the same relative order (so that they differ at most in the relative
  order of matches with different start times) leave, from the same state, the same ratings
  for every team, the same \<^verbatim>\<open>DEFAULT_EPA\<close> and the same outcome. The matches are processed,
  numbered from 1, in the sequence that is ascending in the start time and keeps the matches
  of every start time in their input order; for an input that is already ascending this is
  the input sequence itself.
\<close>

theorem process_event_same_tie_order:
  assumes "mset ys = mset xs"
    and "\<forall>k. filter (\<lambda>m. start_key m = k) ys = filter (\<lambda>m. start_key m = k) xs"
  shows "process_event ys s = process_event xs s
    \<and> (\<exists>zs. mset zs = mset xs
          \<and> sorted (map start_key zs)
          \<and> (\<forall>k. filter (\<lambda>m. start_key m = k) zs = filter (\<lambda>m. start_key m = k) xs)
          \<and> process_event xs s =
              process_matches (enumerate 1 zs) (s\<lparr>DEFAULT_EPA := calculate_default_epa xs\<rparr>))
    \<and> (sorted (map start_key xs) \<longrightarrow>
          process_event xs s =
            process_matches (enumerate 1 xs) (s\<lparr>DEFAULT_EPA := calculate_default_epa xs\<rparr>))"
proof (intro conjI impI)
  have "sort_key start_key ys = sort_key start_key xs"
    using assms by (intro sort_key_same_ties) simp_all
  then show "process_event ys s = process_event xs s"
    by (simp add: process_event_def calculate_default_epa_mset [OF assms(1)])
next
  let ?zs = "sort_key start_key xs"
  have "mset ?zs = mset xs" and "sorted (map start_key ?zs)"
    and "\<forall>k. filter (\<lambda>m. start_key m = k) ?zs = filter (\<lambda>m. start_key m = k) xs"
    by (simp_all add: sort_key_stable)
  moreover have "process_event xs s =
      process_matches (enumerate 1 ?zs) (s\<lparr>DEFAULT_EPA := calculate_default_epa xs\<rparr>)"
    by (simp add: process_event_def)
  ultimately show "\<exists>zs. mset zs = mset xs
          \<and> sorted (map start_key zs)
          \<and> (\<forall>k. filter (\<lambda>m. start_key m = k) zs = filter (\<lambda>m. start_key m = k) xs)
          \<and> process_event xs s =
              process_matches (enumerate 1 zs) (s\<lparr>DEFAULT_EPA := calculate_default_epa xs\<rparr>)"
    by blast
next
  assume "sorted (map start_key xs)"
  then have "sort_key start_key xs = xs" by (rule sort_key_id_if_sorted)
  then show "process_event xs s =
      process_matches (enumerate 1 xs) (s\<lparr>DEFAULT_EPA := calculate_default_epa xs\<rparr>)"
    by (simp add: process_event_def)
qed

theorem process_event_same_tie_order_witness:
  "mset [later_match_C, tie_match_A] = mset [tie_match_A, later_match_C]
   \<and> (\<forall>k. filter (\<lambda>m. start_key m = k) [later_match_C, tie_match_A]
          = filter (\<lambda>m. start_key m = k) [tie_match_A, later_match_C])
   \<and> sorted (map start_key [tie_match_A, later_match_C])
   \<and> process_event [later_match_C, tie_match_A] initial_state
       = process_event [tie_match_A, later_match_C] initial_state
   \<and> process_event [tie_match_A, later_match_C] initial_state
       = process_matches (enumerate 1 [tie_match_A, later_match_C])
           (initial_state\<lparr>DEFAULT_EPA := calculate_default_epa [tie_match_A, later_match_C]\<rparr>)
   \<and> sorted (map start_key [tie_match_A, tie_match_B])
   \<and> process_event [tie_match_A, tie_match_B] initial_state
       = process_matches (enumerate 1 [tie_match_A, tie_match_B])
           (initial_state\<lparr>DEFAULT_EPA := calculate_default_epa [tie_match_A, tie_match_B]\<rparr>)"
proof -
  have m: "mset [later_match_C, tie_match_A] = mset [tie_match_A, later_match_C]"
    by simp
  have f: "\<forall>k. filter (\<lambda>m. start_key m = k) [later_match_C, tie_match_A]
          = filter (\<lambda>m. start_key m = k) [tie_match_A, later_match_C]"
    by (auto simp: start_key_def tie_match_A_def later_match_C_def)
  have s: "sorted (map start_key [tie_match_A, later_match_C])"
    by (simp add: start_key_def tie_match_A_def later_match_C_def)
  have m': "mset [tie_match_A, tie_match_B] = mset [tie_match_A, tie_match_B]"
    and f': "\<forall>k. filter (\<lambda>m. start_key m = k) [tie_match_A, tie_match_B]
          = filter (\<lambda>m. start_key m = k) [tie_match_A, tie_match_B]"
    by simp_all
  have s': "sorted (map start_key [tie_match_A, tie_match_B])"
    by (simp add: start_key_def tie_match_A_def tie_match_B_def)
  from m f s s' process_event_same_tie_order [OF m f, of initial_state]
    process_event_same_tie_order [OF m' f', of initial_state]
  show ?thesis by blast
qed

text \<open>
  C8 as it was stated fails: the two orderings of two matches with equal start time are both
  ascending, the stable sort keeps each of them, and the runs end with different ratings for
  team 1 (43.4375 against 46.5625), since the second match is rated against the ratings the
  first one left.
\<close>

theorem tie_order_counterexample:
  "start_key tie_match_A = start_key tie_match_B
   \<and> mset [tie_match_A, tie_match_B] = mset [tie_match_B, tie_match_A]
   \<and> sorted (map start_key [tie_match_A, tie_match_B])
   \<and> sorted (map start_key [tie_match_B, tie_match_A])
   \<and> epa_scores (snd (process_event [tie_match_A, tie_match_B] initial_state)) 1 = Some (695 / 16)
   \<and> epa_scores (snd (process_event [tie_match_B, tie_match_A] initial_state)) 1 = Some (745 / 16)"
  by (simp add: tie_match_A_def tie_match_B_def eval_defs)

section \<open>The default rating before the first event\<close>



end
